theory Spec2Isabelle
  imports Complex_Main "HOL-Library.Log_Nat"
begin

section \<open>Numbers\<close>

text \<open>
  A JavaScript number, which is also what the store keeps for a \<^verbatim>\<open>Number\<close> path: an IEEE
  754 double. A finite double is the rational it denotes; the sign of zero is left out,
  since no comparison of the handler or of the store tells the two zeros apart.
\<close>

datatype number = NaN | NegInf | Fin rat | PosInf

text \<open>For \<open>0 < x\<close>, the exponent \<open>e\<close> with \<open>2 ^ e \<le> x < 2 ^ (e + 1)\<close>.\<close>

definition ilog2 :: "rat \<Rightarrow> int" where
  "ilog2 x =
     (case quotient_of x of
        (p, q) \<Rightarrow> let d = bitlen p - bitlen q in if 2 powi d \<le> x then d else d - 1)"

text \<open>The nearest integer, a tie going to the even one.\<close>

definition round_half_even :: "rat \<Rightarrow> int" where
  "round_half_even m =
     (let f = \<lfloor>m\<rfloor>; r = m - of_int f in
      if r < 1 / 2 then f else if 1 / 2 < r then f + 1 else if even f then f else f + 1)"

text \<open>
  The double nearest to a rational, a tie going to the even significand. The exponent is
  at least \<open>- 1022\<close>, so the spacing of the doubles is \<open>2 ^ (e - 52)\<close> and never less than
  \<open>2 ^ - 1074\<close>; \<open>m\<close> is the rational in units of that spacing, rounded. The result is
  an infinity when it reaches \<open>2 ^ 1024\<close>, which is when \<open>m\<close> reaches \<open>2 ^ 53\<close> at the
  exponent 1023. This is the value a number literal of the request body parses to, and
  the result of an addition of two doubles.
\<close>

definition round_double :: "rat \<Rightarrow> number" where
  "round_double x =
     (if x = 0 then Fin 0
      else
        let e = max (ilog2 \<bar>x\<bar>) (- 1022);
            m = round_half_even (\<bar>x\<bar> / 2 powi (e - 52))
        in if 1024 \<le> e \<or> (e = 1023 \<and> 9007199254740992 \<le> m)
           then (if 0 < x then PosInf else NegInf)
           else Fin ((if 0 < x then 1 else - 1) * of_int m * 2 powi (e - 52)))"

text \<open>\<^verbatim>\<open>a <= b\<close>, \<^verbatim>\<open>a < b\<close> and \<^verbatim>\<open>a >= b\<close>: every comparison with \<open>NaN\<close> is false.\<close>

fun le_num :: "number \<Rightarrow> number \<Rightarrow> bool" where
  "le_num NaN b = False"
| "le_num a NaN = False"
| "le_num NegInf b = True"
| "le_num a PosInf = True"
| "le_num (Fin x) (Fin y) = (x \<le> y)"
| "le_num a b = False"

fun lt_num :: "number \<Rightarrow> number \<Rightarrow> bool" where
  "lt_num NaN b = False"
| "lt_num a NaN = False"
| "lt_num NegInf NegInf = False"
| "lt_num NegInf b = True"
| "lt_num PosInf b = False"
| "lt_num (Fin x) (Fin y) = (x < y)"
| "lt_num (Fin x) PosInf = True"
| "lt_num (Fin x) NegInf = False"

definition gte_num :: "number \<Rightarrow> number \<Rightarrow> bool" where
  "gte_num a b = le_num b a"

text \<open>\<^verbatim>\<open>-a\<close>, and the sum of two doubles, which \<^verbatim>\<open>$inc\<close> computes.\<close>

fun neg_num :: "number \<Rightarrow> number" where
  "neg_num NaN = NaN"
| "neg_num NegInf = PosInf"
| "neg_num (Fin x) = Fin (- x)"
| "neg_num PosInf = NegInf"

fun add_num :: "number \<Rightarrow> number \<Rightarrow> number" where
  "add_num NaN b = NaN"
| "add_num a NaN = NaN"
| "add_num PosInf NegInf = NaN"
| "add_num NegInf PosInf = NaN"
| "add_num PosInf b = PosInf"
| "add_num a PosInf = PosInf"
| "add_num NegInf b = NegInf"
| "add_num a NegInf = NegInf"
| "add_num (Fin x) (Fin y) = round_double (x + y)"


section \<open>Values of the request body\<close>

text \<open>
  A value of a field of \<^verbatim>\<open>req.body\<close>, as \<^verbatim>\<open>bodyParser.json()\<close> hands it over; a field
  that is absent destructures to \<open>Undefined\<close>. \<open>Object r\<close> is an array or an object, \<open>r\<close>
  its reference.
\<close>

datatype jsval = Undefined | Null | Bool bool | Number number | String string | Object nat

text \<open>\<^verbatim>\<open>!v\<close> is \<open>\<not> truthy v\<close>.\<close>

fun truthy :: "jsval \<Rightarrow> bool" where
  "truthy Undefined = False"
| "truthy Null = False"
| "truthy (Bool b) = b"
| "truthy (Number NaN) = False"
| "truthy (Number (Fin x)) = (x \<noteq> 0)"
| "truthy (Number n) = True"
| "truthy (String s) = (s \<noteq> [])"
| "truthy (Object r) = True"

text \<open>\<^verbatim>\<open>typeof v === 'number'\<close>\<close>

fun typeof_number :: "jsval \<Rightarrow> bool" where
  "typeof_number (Number n) = True"
| "typeof_number v = False"

text \<open>
  \<^verbatim>\<open>a === b\<close>. \<open>NaN\<close> is not equal to itself. Two objects are equal only when they are
  the same reference.
\<close>

fun strict_eq :: "jsval \<Rightarrow> jsval \<Rightarrow> bool" where
  "strict_eq Undefined Undefined = True"
| "strict_eq Null Null = True"
| "strict_eq (Bool a) (Bool b) = (a = b)"
| "strict_eq (Number NaN) (Number b) = False"
| "strict_eq (Number a) (Number NaN) = False"
| "strict_eq (Number a) (Number b) = (a = b)"
| "strict_eq (String s) (String t) = (s = t)"
| "strict_eq (Object q) (Object r) = (q = r)"
| "strict_eq a b = False"


section \<open>The store and the schema layer\<close>

text \<open>
  \<^verbatim>\<open>models/User.js\<close>: a document has a \<open>name\<close>, a string, and a \<open>balance\<close>, a number. The
  store keeps the documents under their \<^verbatim>\<open>_id\<close>, an ObjectId, and scans them in some
  order when a condition does not name one document.
\<close>

type_synonym objectid = string

record user =
  name :: string
  balance :: number

record store =
  docs :: "objectid \<rightharpoonup> user"
  scan :: "objectid list"

text \<open>
  The handler hands the values of the request to the model \<^verbatim>\<open>User\<close> as they are, and the
  schema layer casts them before the store sees them. That layer is the library
  Mongoose. What it makes of a value given for \<^verbatim>\<open>_id\<close> is a parameter of the model: it
  refuses the value (the call then rejects with a cast error), or takes it for one
  ObjectId, or takes it for a condition on the \<^verbatim>\<open>_id\<close> (an object of query operators).
  Its cast of a name to a string is a parameter as well. Its cast to a number refuses
  \<open>NaN\<close> and nothing else.
\<close>

datatype id_filter = Refused | Is objectid | Where "objectid \<Rightarrow> bool"

record layer =
  castObjectId :: "jsval \<Rightarrow> id_filter"
  castString :: "jsval \<Rightarrow> string option"

fun castNumber :: "number \<Rightarrow> number option" where
  "castNumber NaN = None"
| "castNumber n = Some n"

text \<open>
  The document a filter finds: the one of the given \<^verbatim>\<open>_id\<close>, or the first in scan order
  that the condition holds for, provided its fields meet \<open>c\<close>.
\<close>

definition matching :: "store \<Rightarrow> id_filter \<Rightarrow> (user \<Rightarrow> bool) \<Rightarrow> (objectid \<times> user) option" where
  "matching s f c =
     (case f of
        Refused \<Rightarrow> None
      | Is k \<Rightarrow> (case docs s k of None \<Rightarrow> None | Some u \<Rightarrow> if c u then Some (k, u) else None)
      | Where P \<Rightarrow>
          (case find (\<lambda>k. P k \<and> (case docs s k of None \<Rightarrow> False | Some u \<Rightarrow> c u)) (scan s) of
             None \<Rightarrow> None
           | Some k \<Rightarrow> map_option (Pair k) (docs s k)))"

text \<open>
  \<^verbatim>\<open>{ $inc: { balance: d } }\<close> on a document, and the store with the document of one
  \<^verbatim>\<open>_id\<close> replaced.
\<close>

definition inc :: "user \<Rightarrow> number \<Rightarrow> user" where
  "inc u d = u\<lparr>balance := add_num (balance u) d\<rparr>"

definition replace :: "store \<Rightarrow> objectid \<Rightarrow> user \<Rightarrow> store" where
  "replace s k u = s\<lparr>docs := (docs s)(k \<mapsto> u)\<rparr>"

text \<open>
  One atomic step of the store: the document the filter finds is incremented and
  returned as it is after the update (\<^verbatim>\<open>{ new: true }\<close>); when the filter finds none, the
  step returns null and changes nothing.
\<close>

definition update_one ::
    "store \<Rightarrow> id_filter \<Rightarrow> (user \<Rightarrow> bool) \<Rightarrow> number \<Rightarrow> (objectid \<times> user) option \<times> store" where
  "update_one s f c d =
     (case matching s f c of
        None \<Rightarrow> (None, s)
      | Some (k, u) \<Rightarrow> (Some (k, inc u d), replace s k (inc u d)))"

text \<open>
  The three calls of the handler. Each gives \<open>None\<close> when the layer refuses a value, and
  the call then rejects; otherwise it gives what the call returns and the store after it.

  \<^verbatim>\<open>User.exists({ _id: id })\<close>
\<close>

definition User_exists :: "layer \<Rightarrow> jsval \<Rightarrow> store \<Rightarrow> (bool \<times> store) option" where
  "User_exists L i s =
     (case castObjectId L i of
        Refused \<Rightarrow> None
      | f \<Rightarrow> Some (matching s f (\<lambda>u. True) \<noteq> None, s))"

text \<open>
  \<^verbatim>\<open>User.findOneAndUpdate({ _id: id, balance: { $gte: bound } }, { $inc: { balance: delta } },
  { new: true })\<close>
\<close>

definition findOneAndUpdate_gte_inc ::
    "layer \<Rightarrow> jsval \<Rightarrow> number \<Rightarrow> number \<Rightarrow> store \<Rightarrow> ((objectid \<times> user) option \<times> store) option" where
  "findOneAndUpdate_gte_inc L i bound delta s =
     (case castObjectId L i of
        Refused \<Rightarrow> None
      | f \<Rightarrow>
          (case (castNumber bound, castNumber delta) of
             (Some b, Some d) \<Rightarrow> Some (update_one s f (\<lambda>u. gte_num (balance u) b) d)
           | _ \<Rightarrow> None))"

text \<open>\<^verbatim>\<open>User.findByIdAndUpdate(id, { $inc: { balance: delta } }, { new: true })\<close>\<close>

definition findByIdAndUpdate_inc ::
    "layer \<Rightarrow> jsval \<Rightarrow> number \<Rightarrow> store \<Rightarrow> ((objectid \<times> user) option \<times> store) option" where
  "findByIdAndUpdate_inc L i delta s =
     (case castObjectId L i of
        Refused \<Rightarrow> None
      | f \<Rightarrow>
          (case castNumber delta of
             Some d \<Rightarrow> Some (update_one s f (\<lambda>u. True) d)
           | None \<Rightarrow> None))"


section \<open>The environment of one request\<close>

text \<open>
  Every \<^verbatim>\<open>await\<close> of the handler is a point where other requests and other programs
  (\<^verbatim>\<open>seed.js\<close> deletes every document) may change the store, and where the call may
  reject instead of returning. A \<open>site\<close> names each store call of \<^verbatim>\<open>app.post('/transfer')\<close>;
  the environment gives, for each site, what happens to the store before the call runs
  and whether the call rejects. A call also rejects when the schema layer refuses one of
  its values. A call that rejects leaves the store as it found it.
\<close>

datatype site =
    ExistsFrom      \<comment> \<open>line 85\<close>
  | ExistsTo        \<comment> \<open>line 86\<close>
  | Debit           \<comment> \<open>line 92\<close>
  | Credit          \<comment> \<open>line 106\<close>
  | RefundNotFound  \<comment> \<open>line 115\<close>
  | RefundInCatch   \<comment> \<open>line 129\<close>

datatype fault = Succeeds | Rejects

datatype event = Event (interferes: "store \<Rightarrow> store") (outcome: fault)

type_synonym env = "site \<Rightarrow> event"

datatype 'a awaited = Rejected | Resolved 'a

definition await ::
    "event \<Rightarrow> (store \<Rightarrow> ('a \<times> store) option) \<Rightarrow> store \<Rightarrow> 'a awaited \<times> store" where
  "await ev call s =
     (let s1 = interferes ev s in
      case outcome ev of
        Rejects \<Rightarrow> (Rejected, s1)
      | Succeeds \<Rightarrow>
          (case call s1 of
             None \<Rightarrow> (Rejected, s1)
           | Some (r, s2) \<Rightarrow> (Resolved r, s2)))"

text \<open>The environment in which nothing else touches the store and no call rejects.\<close>

definition quiet :: env where
  "quiet = (\<lambda>c. Event (\<lambda>s. s) Succeeds)"


section \<open>The transfer endpoint\<close>

record request =
  fromUserId :: jsval
  toUserId :: jsval
  amount :: jsval

text \<open>
  One constructor for each \<^verbatim>\<open>res.status(...).json(...)\<close> of the handler. The successful
  reply carries the \<^verbatim>\<open>_id\<close> and the \<^verbatim>\<open>balance\<close> of the two documents the updates returned.
\<close>

datatype reply =
    R400_provide        \<comment> \<open>Provide fromUserId, toUserId, and amount (number)\<close>
  | R400_same           \<comment> \<open>fromUserId and toUserId cannot be same\<close>
  | R400_amount         \<comment> \<open>Amount must be > 0\<close>
  | R404_sender         \<comment> \<open>Sender account not found\<close>
  | R404_recipient      \<comment> \<open>Recipient account not found\<close>
  | R409_insufficient   \<comment> \<open>Insufficient balance\<close>
  | R200_transfer objectid number objectid number
      \<comment> \<open>Transfer successful, from: id, newBalance, to: id, newBalance\<close>
  | R500_rolled_back    \<comment> \<open>Recipient not found during crediting; transfer rolled back\<close>
  | R500_refunded       \<comment> \<open>Credit failed; sender refunded (best-effort)\<close>
  | R500_critical
      \<comment> \<open>Critical error: credit failed and refund failed - manual reconciliation required\<close>
  | R500_server_error   \<comment> \<open>Server error\<close>

fun status :: "reply \<Rightarrow> nat" where
  "status R400_provide = 400"
| "status R400_same = 400"
| "status R400_amount = 400"
| "status R404_sender = 404"
| "status R404_recipient = 404"
| "status R409_insufficient = 409"
| "status (R200_transfer f fb t tb) = 200"
| "status R500_rolled_back = 500"
| "status R500_refunded = 500"
| "status R500_critical = 500"
| "status R500_server_error = 500"

text \<open>
  The record of the store calls one request issued, in order, each with the values the
  handler gave it and with how it ended: it returned a document (for \<open>exists\<close>: a truthy
  value), it returned null, or it rejected.
\<close>

datatype store_call =
    ExistsCall jsval
  | DebitCall jsval number
  | CreditCall jsval number
  | RefundCall jsval number

datatype call_result = Doc | Nothing | Threw

type_synonym calls = "(store_call \<times> call_result) list"

type_synonym run = "reply \<times> store \<times> calls"

fun found :: "bool awaited \<Rightarrow> call_result" where
  "found Rejected = Threw"
| "found (Resolved b) = (if b then Doc else Nothing)"

fun updated :: "(objectid \<times> user) option awaited \<Rightarrow> call_result" where
  "updated Rejected = Threw"
| "updated (Resolved None) = Nothing"
| "updated (Resolved (Some d)) = Doc"

definition after :: "store_call \<times> call_result \<Rightarrow> run \<Rightarrow> run" where
  "after c r = (case r of (rep, s, cs) \<Rightarrow> (rep, s, c # cs))"

text \<open>
  Lines 125 to 139, the \<^verbatim>\<open>catch (creditErr)\<close> block: one refund call; the reply is the
  critical one when that call rejects, and the refunded one otherwise, whatever the call
  returned.
\<close>

definition credit_catch :: "layer \<Rightarrow> env \<Rightarrow> store \<Rightarrow> jsval \<Rightarrow> number \<Rightarrow> run" where
  "credit_catch L e s from n =
     (case await (e RefundInCatch) (findByIdAndUpdate_inc L from n) s of
        (refund, s1) \<Rightarrow>
          after (RefundCall from n, updated refund)
            (case refund of
               Rejected \<Rightarrow> (R500_critical, s1, [])
             | Resolved r \<Rightarrow> (R500_refunded, s1, [])))"

text \<open>
  Lines 105 to 124, the \<^verbatim>\<open>try\<close> block: the credit, and the refund of line 115 when the
  credit returned null. Both calls are inside the \<^verbatim>\<open>try\<close>, so a rejection of either one
  enters the \<^verbatim>\<open>catch\<close> block.
\<close>

definition credit_try ::
    "layer \<Rightarrow> env \<Rightarrow> store \<Rightarrow> jsval \<Rightarrow> jsval \<Rightarrow> number \<Rightarrow> objectid \<times> user \<Rightarrow> run" where
  "credit_try L e s from to n senderUpdate =
     (case await (e Credit) (findByIdAndUpdate_inc L to n) s of
        (recipientUpdate, s1) \<Rightarrow>
          after (CreditCall to n, updated recipientUpdate)
            (case recipientUpdate of
               Rejected \<Rightarrow> credit_catch L e s1 from n
             | Resolved None \<Rightarrow>
                 (case await (e RefundNotFound) (findByIdAndUpdate_inc L from n) s1 of
                    (refund, s2) \<Rightarrow>
                      after (RefundCall from n, updated refund)
                        (case refund of
                           Rejected \<Rightarrow> credit_catch L e s2 from n
                         | Resolved r \<Rightarrow> (R500_rolled_back, s2, [])))
             | Resolved (Some rcp) \<Rightarrow>
                 (R200_transfer (fst senderUpdate) (balance (snd senderUpdate))
                    (fst rcp) (balance (snd rcp)), s1, [])))"

text \<open>Lines 91 to 101: the conditional debit.\<close>

definition debit_sender :: "layer \<Rightarrow> env \<Rightarrow> store \<Rightarrow> jsval \<Rightarrow> jsval \<Rightarrow> number \<Rightarrow> run" where
  "debit_sender L e s from to n =
     (case await (e Debit) (findOneAndUpdate_gte_inc L from n (neg_num n)) s of
        (senderUpdate, s1) \<Rightarrow>
          after (DebitCall from n, updated senderUpdate)
            (case senderUpdate of
               Rejected \<Rightarrow> (R500_server_error, s1, [])
             | Resolved None \<Rightarrow> (R409_insufficient, s1, [])
             | Resolved (Some sender) \<Rightarrow> credit_try L e s1 from to n sender))"

text \<open>
  Lines 83 to 89: both existence queries are issued (\<^verbatim>\<open>Promise.all\<close>); when either
  rejects, the outer \<^verbatim>\<open>catch\<close> answers.
\<close>

definition ensure_exist :: "layer \<Rightarrow> env \<Rightarrow> store \<Rightarrow> jsval \<Rightarrow> jsval \<Rightarrow> number \<Rightarrow> run" where
  "ensure_exist L e s from to n =
     (case await (e ExistsFrom) (User_exists L from) s of
        (fromUserExists, s1) \<Rightarrow>
          (case await (e ExistsTo) (User_exists L to) s1 of
             (toUserExists, s2) \<Rightarrow>
               after (ExistsCall from, found fromUserExists)
                 (after (ExistsCall to, found toUserExists)
                    (case (fromUserExists, toUserExists) of
                       (Resolved fe, Resolved te) \<Rightarrow>
                         if \<not> fe then (R404_sender, s2, [])
                         else if \<not> te then (R404_recipient, s2, [])
                         else debit_sender L e s2 from to n
                     | _ \<Rightarrow> (R500_server_error, s2, [])))))"

text \<open>Lines 67 to 144: \<^verbatim>\<open>app.post('/transfer')\<close>, starting with the validation of lines 70 to 81.\<close>

definition transfer :: "layer \<Rightarrow> env \<Rightarrow> store \<Rightarrow> request \<Rightarrow> run" where
  "transfer L e s rq =
     (if \<not> truthy (fromUserId rq) \<or> \<not> truthy (toUserId rq) \<or> \<not> typeof_number (amount rq)
      then (R400_provide, s, [])
      else if strict_eq (fromUserId rq) (toUserId rq) then (R400_same, s, [])
      else (case amount rq of
              Number n \<Rightarrow>
                if le_num n (Fin 0) then (R400_amount, s, [])
                else ensure_exist L e s (fromUserId rq) (toUserId rq) n
            | _ \<Rightarrow> (R400_provide, s, [])))"


section \<open>What a run did to the store\<close>

text \<open>
  The calls of a run that changed the store: a debit, a credit or a refund that returned
  the updated document.
\<close>

fun is_update :: "store_call \<Rightarrow> bool" where
  "is_update (ExistsCall i) = False"
| "is_update c = True"

definition writes :: "calls \<Rightarrow> calls" where
  "writes cs = filter (\<lambda>(c, r). is_update c \<and> r = Doc) cs"

text \<open>No other request or program changes the store while the request is served.\<close>

definition undisturbed :: "env \<Rightarrow> bool" where
  "undisturbed e = (\<forall>c s. interferes (e c) s = s)"



section \<open>The atomic updates of the store\<close>

text \<open>
  The two updates the handler sends to the store, each applied by the store in one atomic
  step: the conditional debit of line 92 and the increment of lines 106, 115 and 129. An
  update that the schema layer refuses changes nothing.
\<close>

datatype update = CondDebit jsval number | Increment jsval number

fun apply_update :: "layer \<Rightarrow> store \<Rightarrow> update \<Rightarrow> store" where
  "apply_update L s (CondDebit i n) =
     (case findOneAndUpdate_gte_inc L i n (neg_num n) s of None \<Rightarrow> s | Some (r, s') \<Rightarrow> s')"
| "apply_update L s (Increment i n) =
     (case findByIdAndUpdate_inc L i n s of None \<Rightarrow> s | Some (r, s') \<Rightarrow> s')"



text \<open>
  The amount of a debit has passed the check \<^verbatim>\<open>amount <= 0\<close>; the amount of an increment
  is a positive number.
\<close>

fun guarded :: "update \<Rightarrow> bool" where
  "guarded (CondDebit i n) = (\<not> le_num n (Fin 0))"
| "guarded (Increment i n) = lt_num (Fin 0) n"


text \<open>The refund calls of a run: lines 115 and 129.\<close>

fun is_refund :: "store_call \<times> call_result \<Rightarrow> bool" where
  "is_refund (RefundCall i n, r) = True"
| "is_refund c = False"

definition refund_attempts :: "calls \<Rightarrow> nat" where
  "refund_attempts cs = length (filter is_refund cs)"


section \<open>The words of the specification\<close>

text \<open>
  The five kinds of error of the specification, and the kind each reply of the handler
  stands for; the reply \<^verbatim>\<open>Server error\<close> of the outer \<^verbatim>\<open>catch\<close> and the successful reply
  have none.
\<close>

datatype kind =
    InvalidRequest
  | AccountNotFound
  | InsufficientFunds
  | CreditFailure_Compensated
  | CreditFailure_Uncompensated

fun error_kind :: "reply \<Rightarrow> kind option" where
  "error_kind R400_provide = Some InvalidRequest"
| "error_kind R400_same = Some InvalidRequest"
| "error_kind R400_amount = Some InvalidRequest"
| "error_kind R404_sender = Some AccountNotFound"
| "error_kind R404_recipient = Some AccountNotFound"
| "error_kind R409_insufficient = Some InsufficientFunds"
| "error_kind (R200_transfer f fb t tb) = None"
| "error_kind R500_rolled_back = Some CreditFailure_Compensated"
| "error_kind R500_refunded = Some CreditFailure_Compensated"
| "error_kind R500_critical = Some CreditFailure_Uncompensated"
| "error_kind R500_server_error = None"

text \<open>
  A malformed request in the words of the specification: the two identifiers are equal,
  the amount is not strictly positive, or an identifier is not syntactically valid. The
  identifiers of the store are ObjectIds, written as 24 hexadecimal digits.
\<close>

definition hex_digit :: "char \<Rightarrow> bool" where
  "hex_digit c = (c \<in> set ''0123456789abcdefABCDEF'')"

fun syntactically_valid :: "jsval \<Rightarrow> bool" where
  "syntactically_valid (String s) = (length s = 24 \<and> list_all hex_digit s)"
| "syntactically_valid v = False"

fun strictly_positive :: "jsval \<Rightarrow> bool" where
  "strictly_positive (Number n) = lt_num (Fin 0) n"
| "strictly_positive v = False"

definition malformed :: "request \<Rightarrow> bool" where
  "malformed rq =
     (fromUserId rq = toUserId rq \<or> \<not> strictly_positive (amount rq)
      \<or> \<not> syntactically_valid (fromUserId rq) \<or> \<not> syntactically_valid (toUserId rq))"

text \<open>A rational that is a double: rounding leaves it as it is.\<close>

definition representable :: "rat \<Rightarrow> bool" where
  "representable x = (round_double x = Fin x)"


section \<open>The endpoint that creates an account\<close>

text \<open>
  Lines 31 to 44, \<^verbatim>\<open>app.post('/users')\<close>. \<open>new_id\<close> is the \<^verbatim>\<open>_id\<close> that \<^verbatim>\<open>new User\<close> gives the
  document. \<^verbatim>\<open>user.save()\<close> casts the two fields as the schema of \<^verbatim>\<open>models/User.js\<close> says
  (\<open>name\<close> to a string, \<open>balance\<close> to a number) and stores the document, or rejects when
  a cast fails or the name is the empty string (the path is \<^verbatim>\<open>required\<close>).
\<close>

record user_body =
  body_name :: jsval
  body_balance :: jsval

datatype user_reply =
    U400          \<comment> \<open>Provide name (string) and balance (number)\<close>
  | U201 objectid user \<comment> \<open>User created\<close>
  | U500          \<comment> \<open>Server error\<close>

definition save :: "layer \<Rightarrow> objectid \<Rightarrow> jsval \<Rightarrow> number \<Rightarrow> store \<Rightarrow> (user \<times> store) option" where
  "save L i nm n s =
     (case (castString L nm, castNumber n) of
        (Some str, Some b) \<Rightarrow>
          if str = [] then None
          else
            (let u = \<lparr>name = str, balance = b\<rparr>
             in Some (u, s\<lparr>docs := (docs s)(i \<mapsto> u), scan := scan s @ [i]\<rparr>))
      | _ \<Rightarrow> None)"

definition create_user ::
    "layer \<Rightarrow> event \<Rightarrow> objectid \<Rightarrow> store \<Rightarrow> user_body \<Rightarrow> user_reply \<times> store" where
  "create_user L ev new_id s b =
     (if \<not> truthy (body_name b) \<or> \<not> typeof_number (body_balance b) then (U400, s)
      else (case body_balance b of
              Number n \<Rightarrow>
                (case await ev (save L new_id (body_name b) n) s of
                   (Rejected, s1) \<Rightarrow> (U500, s1)
                 | (Resolved user, s1) \<Rightarrow> (U201 new_id user, s1))
            | _ \<Rightarrow> (U400, s)))"


section \<open>A schema layer and the accounts of \<^verbatim>\<open>seed.js\<close>\<close>

text \<open>
  A schema layer for the examples. It takes a string of 24 hexadecimal digits for the
  ObjectId that the digits write, whatever their case, and refuses every other value for
  an \<^verbatim>\<open>_id\<close>; it takes a string for a name and refuses every other value. (Mongoose takes
  more values than these for an ObjectId and for a string; none of them occurs in the
  examples.)
\<close>

definition lower_hex :: "char \<Rightarrow> char" where
  "lower_hex c =
     (if c = CHR ''A'' then CHR ''a'' else if c = CHR ''B'' then CHR ''b''
      else if c = CHR ''C'' then CHR ''c'' else if c = CHR ''D'' then CHR ''d''
      else if c = CHR ''E'' then CHR ''e'' else if c = CHR ''F'' then CHR ''f'' else c)"

definition hex_layer :: layer where
  "hex_layer =
     \<lparr>castObjectId =
        (\<lambda>v. case v of
               String s \<Rightarrow>
                 if length s = 24 \<and> list_all hex_digit s then Is (map lower_hex s) else Refused
             | _ \<Rightarrow> Refused),
      castString = (\<lambda>v. case v of String s \<Rightarrow> Some s | _ \<Rightarrow> None)\<rparr>"

definition alice_id :: objectid where
  "alice_id = ''64b000000000000000000a11''"

definition bob_id :: objectid where
  "bob_id = ''64b000000000000000000b0b''"

definition alice :: jsval where
  "alice = String alice_id"

definition bob :: jsval where
  "bob = String bob_id"

definition seeded :: store where
  "seeded =
     \<lparr>docs = [alice_id \<mapsto> \<lparr>name = ''Alice'', balance = Fin 1000\<rparr>,
              bob_id \<mapsto> \<lparr>name = ''Bob'', balance = Fin 500\<rparr>],
      scan = [alice_id, bob_id]\<rparr>"

text \<open>
  Alice's identifier written with capital digits, and the doubles that the literals
  \<^verbatim>\<open>0.41\<close> and \<^verbatim>\<open>0.1\<close> parse to.
\<close>

definition alice_upper :: jsval where
  "alice_upper = String ''64B000000000000000000A11''"





section \<open>The store calls\<close>

lemma matching_Some:
  "matching s f c = Some (k, u) \<Longrightarrow> docs s k = Some u \<and> c u"
  by (cases f) (auto simp: matching_def find_Some_iff split: option.splits if_splits)

lemma castNumber_Some: "castNumber n = Some m \<longleftrightarrow> n \<noteq> NaN \<and> m = n"
  by (cases n) auto

lemma update_one_result:
  assumes "update_one s f c d = (r, s')"
  shows "(case r of
            None \<Rightarrow> s' = s
          | Some (k, u') \<Rightarrow>
              (\<exists>u. docs s k = Some u \<and> c u \<and> u' = inc u d \<and> s' = replace s k u'))"
proof (cases "matching s f c")
  case None
  with assms show ?thesis by (auto simp: update_one_def)
next
  case (Some ku)
  obtain k u where ku: "ku = (k, u)" by (cases ku)
  from matching_Some [of s f c k u] Some ku have "docs s k = Some u" "c u" by auto
  with assms Some ku show ?thesis by (auto simp: update_one_def)
qed

lemma debit_result:
  assumes "findOneAndUpdate_gte_inc L i b d s = Some (r, s')"
  shows "b \<noteq> NaN \<and> d \<noteq> NaN \<and> castObjectId L i \<noteq> Refused
       \<and> (case r of
            None \<Rightarrow> s' = s
          | Some (k, u') \<Rightarrow>
              (\<exists>u. docs s k = Some u \<and> gte_num (balance u) b \<and> u' = inc u d
                 \<and> s' = replace s k u'))"
proof -
  from assms have "b \<noteq> NaN \<and> d \<noteq> NaN \<and> castObjectId L i \<noteq> Refused
      \<and> update_one s (castObjectId L i) (\<lambda>u. gte_num (balance u) b) d = (r, s')"
    by (auto simp: findOneAndUpdate_gte_inc_def castNumber_Some
        split: id_filter.splits option.splits)
  with update_one_result [of s "castObjectId L i" "\<lambda>u. gte_num (balance u) b" d r s']
  show ?thesis by simp
qed

lemma inc_result:
  assumes "findByIdAndUpdate_inc L i d s = Some (r, s')"
  shows "d \<noteq> NaN \<and> castObjectId L i \<noteq> Refused
       \<and> (case r of
            None \<Rightarrow> s' = s
          | Some (k, u') \<Rightarrow>
              (\<exists>u. docs s k = Some u \<and> u' = inc u d \<and> s' = replace s k u'))"
proof -
  from assms have "d \<noteq> NaN \<and> castObjectId L i \<noteq> Refused
      \<and> update_one s (castObjectId L i) (\<lambda>u. True) d = (r, s')"
    by (auto simp: findByIdAndUpdate_inc_def castNumber_Some
        split: id_filter.splits option.splits)
  with update_one_result [of s "castObjectId L i" "\<lambda>u. True" d r s']
  show ?thesis by (auto split: option.splits)
qed

lemma await_exists:
  "await ev (User_exists L i) s = (r, s') \<Longrightarrow> s' = interferes ev s"
  by (auto simp: await_def Let_def User_exists_def
      split: fault.splits option.splits id_filter.splits)


lemma await_Resolved:
  "await ev call s = (Resolved r, s') \<Longrightarrow> call (interferes ev s) = Some (r, s')"
  by (auto simp: await_def Let_def split: fault.splits option.splits)

lemma await_debit:
  assumes "await ev (findOneAndUpdate_gte_inc L i b d) s = (Resolved r, s')"
  shows "b \<noteq> NaN \<and> d \<noteq> NaN \<and> castObjectId L i \<noteq> Refused
       \<and> (case r of
            None \<Rightarrow> s' = interferes ev s
          | Some (k, u') \<Rightarrow>
              (\<exists>u. docs (interferes ev s) k = Some u \<and> gte_num (balance u) b \<and> u' = inc u d
                 \<and> s' = replace (interferes ev s) k u'))"
  using debit_result [OF await_Resolved [OF assms]] .


text \<open>
  With a filter that names one document, the two updates are a function of that
  document.
\<close>

lemma matching_Is:
  "matching s (Is k) c = (case docs s k of None \<Rightarrow> None | Some u \<Rightarrow> if c u then Some (k, u) else None)"
  by (simp add: matching_def)



lemma exists_Is:
  "castObjectId L i = Is f \<Longrightarrow> User_exists L i s = Some (docs s f \<noteq> None, s)"
  by (auto simp: User_exists_def matching_Is split: option.splits)

lemma debit_Is_eq:
  "castObjectId L i = Is f \<Longrightarrow> b \<noteq> NaN \<Longrightarrow> d \<noteq> NaN \<Longrightarrow>
   findOneAndUpdate_gte_inc L i b d s =
     Some (case docs s f of
             None \<Rightarrow> (None, s)
           | Some u \<Rightarrow>
               if gte_num (balance u) b then (Some (f, inc u d), replace s f (inc u d))
               else (None, s))"
  by (cases b; cases d)
    (auto simp: findOneAndUpdate_gte_inc_def update_one_def matching_Is split: option.splits)

lemma inc_Is_eq:
  "castObjectId L i = Is f \<Longrightarrow> d \<noteq> NaN \<Longrightarrow>
   findByIdAndUpdate_inc L i d s =
     Some (case docs s f of
             None \<Rightarrow> (None, s)
           | Some u \<Rightarrow> (Some (f, inc u d), replace s f (inc u d)))"
  by (cases d)
    (auto simp: findByIdAndUpdate_inc_def update_one_def matching_Is split: option.splits)

lemma exists_Refused: "castObjectId L i = Refused \<Longrightarrow> User_exists L i s = None"
  by (simp add: User_exists_def)

lemma debit_NaN: "findOneAndUpdate_gte_inc L i NaN d s = None"
  by (cases "castObjectId L i") (simp_all add: findOneAndUpdate_gte_inc_def)


section \<open>The paths of a request\<close>

text \<open>
  A request that has passed the validation takes one of eleven paths through lines 83
  to 139.
\<close>

lemma ensure_exist_cases
  [consumes 1, case_names exists_rejected no_sender no_recipient debit_rejected insufficient
     completed rolled_back refunded_after_null critical_after_null refunded critical]:
  assumes "ensure_exist L e s from to n = (rep, s', cs)"
  obtains
    (exists_rejected) fe te s1 where
      "await (e ExistsFrom) (User_exists L from) s = (fe, s1)"
      "await (e ExistsTo) (User_exists L to) s1 = (te, s')"
      "fe = Rejected \<or> te = Rejected" "rep = R500_server_error"
      "cs = [(ExistsCall from, found fe), (ExistsCall to, found te)]"
  | (no_sender) te s1 where
      "await (e ExistsFrom) (User_exists L from) s = (Resolved False, s1)"
      "await (e ExistsTo) (User_exists L to) s1 = (Resolved te, s')"
      "rep = R404_sender"
      "cs = [(ExistsCall from, Nothing), (ExistsCall to, found (Resolved te))]"
  | (no_recipient) s1 where
      "await (e ExistsFrom) (User_exists L from) s = (Resolved True, s1)"
      "await (e ExistsTo) (User_exists L to) s1 = (Resolved False, s')"
      "rep = R404_recipient"
      "cs = [(ExistsCall from, Doc), (ExistsCall to, Nothing)]"
  | (debit_rejected) s1 s2 where
      "await (e ExistsFrom) (User_exists L from) s = (Resolved True, s1)"
      "await (e ExistsTo) (User_exists L to) s1 = (Resolved True, s2)"
      "await (e Debit) (findOneAndUpdate_gte_inc L from n (neg_num n)) s2 = (Rejected, s')"
      "rep = R500_server_error"
      "cs = [(ExistsCall from, Doc), (ExistsCall to, Doc), (DebitCall from n, Threw)]"
  | (insufficient) s1 s2 where
      "await (e ExistsFrom) (User_exists L from) s = (Resolved True, s1)"
      "await (e ExistsTo) (User_exists L to) s1 = (Resolved True, s2)"
      "await (e Debit) (findOneAndUpdate_gte_inc L from n (neg_num n)) s2 = (Resolved None, s')"
      "rep = R409_insufficient"
      "cs = [(ExistsCall from, Doc), (ExistsCall to, Doc), (DebitCall from n, Nothing)]"
  | (completed) s1 s2 s3 kf uf kt ut where
      "await (e ExistsFrom) (User_exists L from) s = (Resolved True, s1)"
      "await (e ExistsTo) (User_exists L to) s1 = (Resolved True, s2)"
      "await (e Debit) (findOneAndUpdate_gte_inc L from n (neg_num n)) s2
         = (Resolved (Some (kf, uf)), s3)"
      "await (e Credit) (findByIdAndUpdate_inc L to n) s3 = (Resolved (Some (kt, ut)), s')"
      "rep = R200_transfer kf (balance uf) kt (balance ut)"
      "cs = [(ExistsCall from, Doc), (ExistsCall to, Doc), (DebitCall from n, Doc),
             (CreditCall to n, Doc)]"
  | (rolled_back) s1 s2 s3 s4 kf uf r where
      "await (e ExistsFrom) (User_exists L from) s = (Resolved True, s1)"
      "await (e ExistsTo) (User_exists L to) s1 = (Resolved True, s2)"
      "await (e Debit) (findOneAndUpdate_gte_inc L from n (neg_num n)) s2
         = (Resolved (Some (kf, uf)), s3)"
      "await (e Credit) (findByIdAndUpdate_inc L to n) s3 = (Resolved None, s4)"
      "await (e RefundNotFound) (findByIdAndUpdate_inc L from n) s4 = (Resolved r, s')"
      "rep = R500_rolled_back"
      "cs = [(ExistsCall from, Doc), (ExistsCall to, Doc), (DebitCall from n, Doc),
             (CreditCall to n, Nothing), (RefundCall from n, updated (Resolved r))]"
  | (refunded_after_null) s1 s2 s3 s4 s5 kf uf r where
      "await (e ExistsFrom) (User_exists L from) s = (Resolved True, s1)"
      "await (e ExistsTo) (User_exists L to) s1 = (Resolved True, s2)"
      "await (e Debit) (findOneAndUpdate_gte_inc L from n (neg_num n)) s2
         = (Resolved (Some (kf, uf)), s3)"
      "await (e Credit) (findByIdAndUpdate_inc L to n) s3 = (Resolved None, s4)"
      "await (e RefundNotFound) (findByIdAndUpdate_inc L from n) s4 = (Rejected, s5)"
      "await (e RefundInCatch) (findByIdAndUpdate_inc L from n) s5 = (Resolved r, s')"
      "rep = R500_refunded"
      "cs = [(ExistsCall from, Doc), (ExistsCall to, Doc), (DebitCall from n, Doc),
             (CreditCall to n, Nothing), (RefundCall from n, Threw),
             (RefundCall from n, updated (Resolved r))]"
  | (critical_after_null) s1 s2 s3 s4 s5 kf uf where
      "await (e ExistsFrom) (User_exists L from) s = (Resolved True, s1)"
      "await (e ExistsTo) (User_exists L to) s1 = (Resolved True, s2)"
      "await (e Debit) (findOneAndUpdate_gte_inc L from n (neg_num n)) s2
         = (Resolved (Some (kf, uf)), s3)"
      "await (e Credit) (findByIdAndUpdate_inc L to n) s3 = (Resolved None, s4)"
      "await (e RefundNotFound) (findByIdAndUpdate_inc L from n) s4 = (Rejected, s5)"
      "await (e RefundInCatch) (findByIdAndUpdate_inc L from n) s5 = (Rejected, s')"
      "rep = R500_critical"
      "cs = [(ExistsCall from, Doc), (ExistsCall to, Doc), (DebitCall from n, Doc),
             (CreditCall to n, Nothing), (RefundCall from n, Threw),
             (RefundCall from n, Threw)]"
  | (refunded) s1 s2 s3 s4 kf uf r where
      "await (e ExistsFrom) (User_exists L from) s = (Resolved True, s1)"
      "await (e ExistsTo) (User_exists L to) s1 = (Resolved True, s2)"
      "await (e Debit) (findOneAndUpdate_gte_inc L from n (neg_num n)) s2
         = (Resolved (Some (kf, uf)), s3)"
      "await (e Credit) (findByIdAndUpdate_inc L to n) s3 = (Rejected, s4)"
      "await (e RefundInCatch) (findByIdAndUpdate_inc L from n) s4 = (Resolved r, s')"
      "rep = R500_refunded"
      "cs = [(ExistsCall from, Doc), (ExistsCall to, Doc), (DebitCall from n, Doc),
             (CreditCall to n, Threw), (RefundCall from n, updated (Resolved r))]"
  | (critical) s1 s2 s3 s4 kf uf where
      "await (e ExistsFrom) (User_exists L from) s = (Resolved True, s1)"
      "await (e ExistsTo) (User_exists L to) s1 = (Resolved True, s2)"
      "await (e Debit) (findOneAndUpdate_gte_inc L from n (neg_num n)) s2
         = (Resolved (Some (kf, uf)), s3)"
      "await (e Credit) (findByIdAndUpdate_inc L to n) s3 = (Rejected, s4)"
      "await (e RefundInCatch) (findByIdAndUpdate_inc L from n) s4 = (Rejected, s')"
      "rep = R500_critical"
      "cs = [(ExistsCall from, Doc), (ExistsCall to, Doc), (DebitCall from n, Doc),
             (CreditCall to n, Threw), (RefundCall from n, Threw)]"
  using assms
  apply (simp add: ensure_exist_def debit_sender_def credit_try_def credit_catch_def after_def
      split: prod.splits awaited.splits option.splits if_splits)
                      apply fastforce+
  done

text \<open>A request that is not answered with 400 has passed the validation of lines 73 to 81.\<close>

lemma valid_request:
  assumes "transfer L e s rq = (rep, s', cs)" and "status rep \<noteq> 400"
  shows "\<exists>n. amount rq = Number n \<and> truthy (fromUserId rq) \<and> truthy (toUserId rq) \<and>
     \<not> strict_eq (fromUserId rq) (toUserId rq) \<and> \<not> le_num n (Fin 0) \<and>
     ensure_exist L e s (fromUserId rq) (toUserId rq) n = (rep, s', cs)"
  using assms
  by (auto simp: transfer_def split: if_splits jsval.splits)

lemma ensure_exist_calls:
  assumes "ensure_exist L e s from to n = (rep, s', cs)"
  shows "status rep \<noteq> 400 \<and> cs \<noteq> []"
  using assms by (cases rule: ensure_exist_cases) auto

text \<open>A request that is answered with 400 has called the store not once.\<close>

lemma invalid_no_calls:
  assumes "transfer L e s rq = (rep, s', cs)" and "status rep = 400"
  shows "cs = [] \<and> s' = s"
  using assms ensure_exist_calls [of L e s "fromUserId rq" "toUserId rq" _ rep s' cs]
  by (auto simp: transfer_def split: if_splits jsval.splits)

lemma updated_Resolved [simp]: "updated (Resolved r) \<noteq> Threw"
  by (cases r) auto

lemma found_Threw [simp]: "found r = Threw \<longleftrightarrow> r = Rejected"
  by (cases r) auto


section \<open>Rounding\<close>



lemma round_half_even_of_int [simp]: "round_half_even (of_int k) = k"
  by (simp add: round_half_even_def)

lemma bitlen_1: "bitlen 1 = 1"
  by (subst compute_bitlen) simp

lemma round_double_minus: "round_double (- x) = neg_num (round_double x)"
  by (cases "0 < x"; cases "x = 0") (auto simp: round_double_def Let_def)

lemma ilog2_of_int:
  assumes "0 < n"
  shows "ilog2 (of_int n) = bitlen n - 1"
proof -
  from bitlen_bounds [OF assms] have lo: "2 ^ nat (bitlen n - 1) \<le> n"
    by simp
  from assms have b: "1 \<le> bitlen n"
    by (simp add: bitlen_alt_def)
  have "(2::rat) powi (bitlen n - 1) = of_int (2 ^ nat (bitlen n - 1))"
    using b by (simp add: power_int_def)
  also have "\<dots> \<le> of_int n"
    using lo by (simp only: of_int_le_iff)
  finally have "(2::rat) powi (bitlen n - 1) \<le> of_int n" .
  then show ?thesis
    by (simp add: ilog2_def Let_def bitlen_1)
qed

lemma round_double_pos_int:
  assumes "0 < n" and "n \<le> 2 ^ 53"
  shows "round_double (of_int n) = Fin (of_int n)"
proof -
  define d where "d = bitlen n - 1"
  from assms have b: "0 \<le> d"
    by (simp add: d_def bitlen_alt_def)
  from bitlen_bounds [OF assms(1)] have lo: "2 ^ nat d \<le> n"
    by (simp add: d_def)
  with assms(2) have "(2::int) ^ nat d \<le> 2 ^ 53"
    by linarith
  then have "nat d \<le> 53"
    using power_increasing_iff [of "2::int" "nat d" 53] by simp
  then have d53: "d \<le> 53"
    by simp
  have e: "max (ilog2 (of_int n)) (- 1022) = d"
    using assms(1) b by (simp add: ilog2_of_int d_def)
  have x: "(of_int n :: rat) \<noteq> 0" "0 < (of_int n :: rat)" "\<bar>of_int n :: rat\<bar> = of_int n"
    using assms(1) by simp_all
  show ?thesis
  proof (cases "d \<le> 52")
    case True
    define k where "k = nat (52 - d)"
    have u: "(2::rat) powi (d - 52) = 1 / 2 ^ k"
      using True by (simp add: power_int_def k_def field_simps)
    have q: "(of_int n :: rat) / 2 powi (d - 52) = of_int (n * 2 ^ k)"
      by (simp add: u)
    have m: "round_half_even ((of_int n :: rat) / 2 powi (d - 52)) = n * 2 ^ k"
      unfolding q by (rule round_half_even_of_int)
    have "round_double (of_int n) = Fin (of_int (n * 2 ^ k) * 2 powi (d - 52))"
      using x True by (simp only: round_double_def Let_def x(3) e m) simp
    also have "of_int (n * 2 ^ k) * (2::rat) powi (d - 52) = of_int n"
      by (simp add: u)
    finally show ?thesis .
  next
    case False
    with d53 have d: "d = 53" by simp
    with lo assms(2) have n: "n = 2 ^ 53" by simp
    have q: "(of_int n :: rat) / 2 powi (d - 52) = of_int (2 ^ 52)"
      by (simp add: d n)
    have m: "round_half_even ((of_int n :: rat) / 2 powi (d - 52)) = 2 ^ 52"
      unfolding q by (rule round_half_even_of_int)
    have "round_double (of_int n) = Fin (of_int (2 ^ 52) * 2 powi (d - 52))"
      using x by (simp only: round_double_def Let_def x(3) e m) (simp add: d)
    also have "of_int (2 ^ 52) * (2::rat) powi (d - 52) = of_int n"
      by (simp add: d n)
    finally show ?thesis .
  qed
qed

text \<open>Every integer of magnitude at most \<open>2 ^ 53\<close> is a double.\<close>

lemma representable_int:
  assumes "\<bar>n\<bar> \<le> 2 ^ 53"
  shows "representable (of_int n)"
proof -
  consider "n = 0" | "0 < n" | "n < 0" by linarith
  then show ?thesis
  proof cases
    case 1
    then show ?thesis by (simp add: representable_def round_double_def)
  next
    case 2
    with assms round_double_pos_int [of n] show ?thesis
      by (simp add: representable_def)
  next
    case 3
    with assms have p: "0 < - n" "- n \<le> 2 ^ 53" by simp_all
    have "round_double (of_int n) = neg_num (round_double (of_int (- n)))"
      using round_double_minus [of "of_int (- n)"] by simp
    with round_double_pos_int [OF p] show ?thesis
      by (simp add: representable_def)
  qed
qed

lemma positive_amount: "n \<noteq> NaN \<Longrightarrow> \<not> le_num n (Fin 0) \<Longrightarrow> lt_num (Fin 0) n"
  by (cases n) auto









section \<open>The examples\<close>

lemma cast_alice: "castObjectId hex_layer alice = Is alice_id"
  by (simp add: hex_layer_def alice_def alice_id_def hex_digit_def lower_hex_def)

lemma cast_bob: "castObjectId hex_layer bob = Is bob_id"
  by (simp add: hex_layer_def bob_def bob_id_def hex_digit_def lower_hex_def)

lemma cast_alice_upper: "castObjectId hex_layer alice_upper = Is alice_id"
  by (simp add: hex_layer_def alice_upper_def alice_id_def hex_digit_def lower_hex_def)

lemma cast_abc: "castObjectId hex_layer (String ''abc'') = Refused"
  and cast_xyz: "castObjectId hex_layer (String ''xyz'') = Refused"
  by (simp_all add: hex_layer_def)

lemma ids_differ: "alice_id \<noteq> bob_id" "bob_id \<noteq> alice_id"
  by (simp_all add: alice_id_def bob_id_def)

lemma ids_truthy: "truthy alice" "truthy bob" "truthy alice_upper"
  by (simp_all add: alice_def bob_def alice_upper_def alice_id_def bob_id_def)

lemma ids_not_same:
  "\<not> strict_eq alice bob" "\<not> strict_eq bob alice" "\<not> strict_eq alice_upper alice"
  "strict_eq alice alice"
  by (simp_all add: alice_def bob_def alice_upper_def alice_id_def bob_id_def)

lemma doubles:
  "round_double 800 = Fin 800" "round_double 700 = Fin 700" "round_double 1000 = Fin 1000"
  "round_double 999 = Fin 999" "round_double 9007199254740993 = Fin 9007199254740992"
  by code_simp+



lemma undisturbed_quiet: "undisturbed quiet"
  by (simp add: undisturbed_def quiet_def)

lemmas handler_defs =
  transfer_def ensure_exist_def debit_sender_def credit_try_def credit_catch_def
  after_def await_def

lemmas example_simps =
  exists_Is debit_Is_eq inc_Is_eq exists_Refused debit_NaN
  cast_alice cast_bob cast_alice_upper cast_abc cast_xyz ids_differ ids_truthy ids_not_same
  doubles quiet_def seeded_def inc_def replace_def gte_num_def


section \<open>Rejections\<close>

text \<open>
  C1. A transfer that is answered with 400, 404 or 409 has made no update of the store:
  none of its calls changed a document, and when nothing else touches the store while
  the request is served, the store after the reply is the store before the call.
\<close>

theorem rejection_changes_nothing:
  assumes "transfer L e s rq = (rep, s', cs)"
    and "status rep \<in> {400, 404, 409}"
  shows "writes cs = [] \<and> (undisturbed e \<longrightarrow> s' = s)"
proof (cases "status rep = 400")
  case True
  from invalid_no_calls [OF assms(1) True] show ?thesis
    by (simp add: writes_def)
next
  case False
  from valid_request [OF assms(1) False] obtain n where
    "ensure_exist L e s (fromUserId rq) (toUserId rq) n = (rep, s', cs)"
    by auto
  then show ?thesis
  proof (cases rule: ensure_exist_cases)
    case (no_sender te s1)
    then show ?thesis
      by (auto simp: writes_def undisturbed_def dest!: await_exists)
  next
    case (no_recipient s1)
    then show ?thesis
      by (auto simp: writes_def undisturbed_def dest!: await_exists)
  next
    case (insufficient s1 s2)
    then show ?thesis
      by (auto simp: writes_def undisturbed_def dest!: await_exists await_debit)
  qed (use assms(2) in auto)
qed

theorem rejection_changes_nothing_witness:
  "transfer hex_layer quiet seeded \<lparr>fromUserId = bob, toUserId = alice, amount = Number (Fin 600)\<rparr>
     = (R409_insufficient, seeded,
        [(ExistsCall bob, Doc), (ExistsCall alice, Doc), (DebitCall bob (Fin 600), Nothing)])
   \<and> status R409_insufficient \<in> {400, 404, 409}
   \<and> undisturbed quiet
   \<and> writes [(ExistsCall bob, Doc), (ExistsCall alice, Doc), (DebitCall bob (Fin 600), Nothing)] = []"
proof -
  have run: "transfer hex_layer quiet seeded
       \<lparr>fromUserId = bob, toUserId = alice, amount = Number (Fin 600)\<rparr>
     = (R409_insufficient, seeded,
        [(ExistsCall bob, Doc), (ExistsCall alice, Doc), (DebitCall bob (Fin 600), Nothing)])"
    by (simp add: handler_defs example_simps)
  have st: "status R409_insufficient \<in> {400, 404, 409}"
    by simp
  from rejection_changes_nothing [OF run st] run st undisturbed_quiet show ?thesis
    by simp
qed


section \<open>No overdraft\<close>






text \<open>
  The debit of an infinite amount from an infinite balance passes the condition of the
  filter and leaves \<open>NaN\<close>, which is neither negative nor at least 0.
\<close>

lemma infinite_debit_leaves_NaN:
  "guarded (CondDebit alice PosInf)
   \<and> docs (apply_update hex_layer
        (seeded\<lparr>docs := (docs seeded)(alice_id \<mapsto> \<lparr>name = ''Alice'', balance = PosInf\<rparr>)\<rparr>)
        (CondDebit alice PosInf)) alice_id
     = Some \<lparr>name = ''Alice'', balance = NaN\<rparr>
   \<and> \<not> gte_num NaN (Fin 0) \<and> \<not> lt_num NaN (Fin 0)"
  by (simp add: example_simps)




section \<open>A completed transfer\<close>

text \<open>
  C3, as the claim states it, fails, in two ways. First run: the sender's identifier is
  Alice's in capital digits and the recipient's is Alice's in small digits; the two are
  not \<^verbatim>\<open>===\<close>, both are cast to the same ObjectId, and the transfer of 200 is
  answered with 200: one document is debited and credited, and the recipient's balance
  of the reply is the 1000 it had before the call, not 1200. Second run: Bob has
  \<open>2 ^ 53\<close> and receives 1; the sum is not a double, and the balance of the reply is
  \<open>2 ^ 53\<close> again.
\<close>

theorem self_transfer_and_rounding:
  "\<not> strict_eq alice_upper alice
   \<and> fst (transfer hex_layer quiet seeded
         \<lparr>fromUserId = alice_upper, toUserId = alice, amount = Number (Fin 200)\<rparr>)
     = R200_transfer alice_id (Fin 800) alice_id (Fin 1000)
   \<and> docs seeded alice_id = Some \<lparr>name = ''Alice'', balance = Fin 1000\<rparr>
   \<and> Fin 1000 \<noteq> Fin (1000 + 200)
   \<and> fst (transfer hex_layer quiet
         (seeded\<lparr>docs := (docs seeded)(bob_id \<mapsto> \<lparr>name = ''Bob'', balance = Fin (2 ^ 53)\<rparr>)\<rparr>)
         \<lparr>fromUserId = alice, toUserId = bob, amount = Number (Fin 1)\<rparr>)
     = R200_transfer alice_id (Fin 999) bob_id (Fin (2 ^ 53))
   \<and> Fin (2 ^ 53) \<noteq> Fin (2 ^ 53 + 1)"
  by (simp add: handler_defs example_simps)

text \<open>
  C3, amended. When a transfer is answered with 200, the two identifiers and the two
  balances of the reply are those of the documents that the conditional debit and the
  credit returned; nothing is read again. When the reply names two different documents
  and nothing else touches the store while the request is served, the sender's balance
  of the reply is the double sum of its balance before the call and the negated amount,
  the recipient's is the double sum of its balance before the call and the amount, and
  the store holds exactly these two new balances. Where the exact difference and the
  exact sum are doubles, the two balances are that difference and that sum, and the
  total of the two balances is as before the call.
\<close>

theorem completed_balances:
  assumes "transfer L e s rq = (R200_transfer fid fb tid tb, s', cs)"
  shows "\<exists>n sender s1 rcp.
      amount rq = Number n \<and>
      findOneAndUpdate_gte_inc L (fromUserId rq) n (neg_num n)
        (interferes (e Debit) (interferes (e ExistsTo) (interferes (e ExistsFrom) s)))
        = Some (Some (fid, sender), s1) \<and>
      findByIdAndUpdate_inc L (toUserId rq) n (interferes (e Credit) s1)
        = Some (Some (tid, rcp), s') \<and>
      fb = balance sender \<and> tb = balance rcp \<and>
      (undisturbed e \<and> fid \<noteq> tid \<longrightarrow>
         (\<exists>uf ut. docs s fid = Some uf \<and> docs s tid = Some ut \<and>
            gte_num (balance uf) n \<and> lt_num (Fin 0) n \<and>
            fb = add_num (balance uf) (neg_num n) \<and> tb = add_num (balance ut) n \<and>
            s' = s\<lparr>docs := (docs s)(fid \<mapsto> uf\<lparr>balance := fb\<rparr>, tid \<mapsto> ut\<lparr>balance := tb\<rparr>)\<rparr> \<and>
            (\<forall>x y a. balance uf = Fin x \<and> balance ut = Fin y \<and> n = Fin a \<and>
                representable (x - a) \<and> representable (y + a) \<longrightarrow>
                fb = Fin (x - a) \<and> tb = Fin (y + a) \<and> (x - a) + (y + a) = x + y)))"
proof -
  have "status (R200_transfer fid fb tid tb) \<noteq> 400" by simp
  from valid_request [OF assms this] obtain n where n: "amount rq = Number n"
    and pos: "\<not> le_num n (Fin 0)"
    and ee: "ensure_exist L e s (fromUserId rq) (toUserId rq) n
               = (R200_transfer fid fb tid tb, s', cs)"
    by auto
  from ee show ?thesis
  proof (cases rule: ensure_exist_cases)
    case (completed s1 s2 s3 kf uf kt ut)
    from completed(1,2) have s2: "s2 = interferes (e ExistsTo) (interferes (e ExistsFrom) s)"
      by (auto dest!: await_exists)
    note d = await_Resolved [OF completed(3)] and c = await_Resolved [OF completed(4)]
    from debit_result [OF d] obtain u0 where u0:
      "docs (interferes (e Debit) s2) kf = Some u0" "gte_num (balance u0) n" "n \<noteq> NaN"
      "uf = inc u0 (neg_num n)" "s3 = replace (interferes (e Debit) s2) kf uf"
      by auto
    from inc_result [OF c] obtain u1 where u1:
      "docs (interferes (e Credit) s3) kt = Some u1"
      "ut = inc u1 n" "s' = replace (interferes (e Credit) s3) kt ut"
      by auto
    have frame: "undisturbed e \<and> fid \<noteq> tid \<longrightarrow>
         (\<exists>uf ut. docs s fid = Some uf \<and> docs s tid = Some ut \<and>
            gte_num (balance uf) n \<and> lt_num (Fin 0) n \<and>
            fb = add_num (balance uf) (neg_num n) \<and> tb = add_num (balance ut) n \<and>
            s' = s\<lparr>docs := (docs s)(fid \<mapsto> uf\<lparr>balance := fb\<rparr>, tid \<mapsto> ut\<lparr>balance := tb\<rparr>)\<rparr> \<and>
            (\<forall>x y a. balance uf = Fin x \<and> balance ut = Fin y \<and> n = Fin a \<and>
                representable (x - a) \<and> representable (y + a) \<longrightarrow>
                fb = Fin (x - a) \<and> tb = Fin (y + a) \<and> (x - a) + (y + a) = x + y))"
    proof (intro impI, rule exI [of _ u0], rule exI [of _ u1])
      assume "undisturbed e \<and> fid \<noteq> tid"
      with completed(5) s2 u0 u1 positive_amount [OF u0(3) pos]
      show "docs s fid = Some u0 \<and> docs s tid = Some u1 \<and>
            gte_num (balance u0) n \<and> lt_num (Fin 0) n \<and>
            fb = add_num (balance u0) (neg_num n) \<and> tb = add_num (balance u1) n \<and>
            s' = s\<lparr>docs := (docs s)(fid \<mapsto> u0\<lparr>balance := fb\<rparr>, tid \<mapsto> u1\<lparr>balance := tb\<rparr>)\<rparr> \<and>
            (\<forall>x y a. balance u0 = Fin x \<and> balance u1 = Fin y \<and> n = Fin a \<and>
                representable (x - a) \<and> representable (y + a) \<longrightarrow>
                fb = Fin (x - a) \<and> tb = Fin (y + a) \<and> (x - a) + (y + a) = x + y)"
        by (auto simp: undisturbed_def replace_def inc_def representable_def)
    qed
    from completed(5) d c s2 n frame show ?thesis
      by auto
  qed auto
qed

theorem completed_balances_witness:
  "transfer hex_layer quiet seeded \<lparr>fromUserId = alice, toUserId = bob, amount = Number (Fin 200)\<rparr>
     = (R200_transfer alice_id (Fin 800) bob_id (Fin 700),
        seeded\<lparr>docs := (docs seeded)(alice_id \<mapsto> \<lparr>name = ''Alice'', balance = Fin 800\<rparr>,
               bob_id \<mapsto> \<lparr>name = ''Bob'', balance = Fin 700\<rparr>)\<rparr>,
        [(ExistsCall alice, Doc), (ExistsCall bob, Doc),
         (DebitCall alice (Fin 200), Doc), (CreditCall bob (Fin 200), Doc)])
   \<and> undisturbed quiet \<and> alice_id \<noteq> bob_id
   \<and> representable (1000 - 200) \<and> representable (500 + 200)
   \<and> (\<exists>uf ut. docs seeded alice_id = Some uf \<and> docs seeded bob_id = Some ut \<and>
         balance uf = Fin 1000 \<and> balance ut = Fin 500 \<and>
         Fin 800 = Fin (1000 - 200) \<and> Fin 700 = Fin (500 + 200))"
proof -
  have run: "transfer hex_layer quiet seeded
       \<lparr>fromUserId = alice, toUserId = bob, amount = Number (Fin 200)\<rparr>
     = (R200_transfer alice_id (Fin 800) bob_id (Fin 700),
        seeded\<lparr>docs := (docs seeded)(alice_id \<mapsto> \<lparr>name = ''Alice'', balance = Fin 800\<rparr>,
               bob_id \<mapsto> \<lparr>name = ''Bob'', balance = Fin 700\<rparr>)\<rparr>,
        [(ExistsCall alice, Doc), (ExistsCall bob, Doc),
         (DebitCall alice (Fin 200), Doc), (CreditCall bob (Fin 200), Doc)])"
    by (simp add: handler_defs example_simps)
  have rep: "representable (1000 - 200)" "representable (500 + 200)"
    by (simp_all add: representable_def doubles)
  from completed_balances [OF run] undisturbed_quiet ids_differ(1) run rep show ?thesis
    by (simp add: seeded_def ids_differ)
qed


section \<open>A failed credit that was compensated\<close>





section \<open>The validation\<close>

text \<open>
  C7, as the claim states it, fails: a request whose two identifiers are not written as
  ObjectIds is malformed in the words of the specification, but the handler never looks
  at the syntax of an identifier. The request passes the validation and both existence
  queries are issued; the schema layer refuses the identifiers, the queries reject, and
  the outer \<^verbatim>\<open>catch\<close> answers 500, not 400.
\<close>

theorem malformed_request_not_rejected:
  "malformed \<lparr>fromUserId = String ''abc'', toUserId = String ''xyz'', amount = Number (Fin 5)\<rparr>
   \<and> transfer hex_layer quiet seeded
         \<lparr>fromUserId = String ''abc'', toUserId = String ''xyz'', amount = Number (Fin 5)\<rparr>
       = (R500_server_error, seeded,
          [(ExistsCall (String ''abc''), Threw), (ExistsCall (String ''xyz''), Threw)])
   \<and> status R500_server_error = 500"
  by (simp add: malformed_def handler_defs example_simps)

text \<open>
  C7, amended. The reply is 400 exactly when an identifier is missing or falsy, the
  amount is not of type number, the two identifiers are strictly equal, or the amount is
  a number for which \<^verbatim>\<open>amount <= 0\<close> holds. A request answered with 400 has made no
  store call and has left the store as it was.
\<close>

theorem validation_rejects_exactly:
  assumes "transfer L e s rq = (rep, s', cs)"
  shows "(status rep = 400 \<longleftrightarrow>
            (\<not> truthy (fromUserId rq) \<or> \<not> truthy (toUserId rq) \<or> \<not> typeof_number (amount rq)
             \<or> strict_eq (fromUserId rq) (toUserId rq)
             \<or> (\<exists>n. amount rq = Number n \<and> le_num n (Fin 0))))
       \<and> (status rep = 400 \<longrightarrow> cs = [] \<and> s' = s)"
proof (cases "status rep = 400")
  case True
  with assms ensure_exist_calls [of L e s "fromUserId rq" "toUserId rq" _ rep s' cs]
  show ?thesis
    by (auto simp: transfer_def split: if_splits jsval.splits)
next
  case False
  from valid_request [OF assms False] False show ?thesis
    by auto
qed

theorem validation_rejects_exactly_witness:
  "transfer hex_layer quiet seeded \<lparr>fromUserId = alice, toUserId = alice, amount = Number (Fin 200)\<rparr>
     = (R400_same, seeded, [])
   \<and> status R400_same = 400
   \<and> strict_eq alice alice"
proof -
  have run: "transfer hex_layer quiet seeded
       \<lparr>fromUserId = alice, toUserId = alice, amount = Number (Fin 200)\<rparr>
     = (R400_same, seeded, [])"
    by (simp add: transfer_def example_simps)
  from validation_rejects_exactly [OF run] run show ?thesis
    by (simp add: ids_not_same)
qed


section \<open>The kinds of error\<close>

text \<open>
  C8, as the claim states it, fails: when the first existence query rejects, the outer
  \<^verbatim>\<open>catch\<close> answers 500 \<^verbatim>\<open>Server error\<close>, which is none of the five kinds.
\<close>

theorem generic_server_error_reply:
  "status (fst (transfer hex_layer (quiet(ExistsFrom := Event (\<lambda>s. s) Rejects)) seeded
       \<lparr>fromUserId = alice, toUserId = bob, amount = Number (Fin 200)\<rparr>)) = 500
   \<and> error_kind (fst (transfer hex_layer (quiet(ExistsFrom := Event (\<lambda>s. s) Rejects)) seeded
       \<lparr>fromUserId = alice, toUserId = bob, amount = Number (Fin 200)\<rparr>)) = None"
  by (simp add: handler_defs example_simps)

text \<open>
  C8, amended. The reply is the generic \<^verbatim>\<open>Server error\<close> exactly when an existence query
  or the conditional debit rejected, and then the request has changed no document. The
  reply is the critical one exactly when the last call of the run is a refund that
  rejected. Every reply other than the successful one and the generic one has one of the
  five kinds.
\<close>

theorem errors_classified_or_generic:
  assumes "transfer L e s rq = (rep, s', cs)"
  shows "(rep = R500_server_error \<longleftrightarrow>
            ((\<exists>i. (ExistsCall i, Threw) \<in> set cs) \<or> (\<exists>i n. (DebitCall i n, Threw) \<in> set cs)))
       \<and> (rep = R500_server_error \<longrightarrow> writes cs = [])
       \<and> (rep = R500_critical \<longleftrightarrow> (\<exists>i n. cs \<noteq> [] \<and> last cs = (RefundCall i n, Threw)))
       \<and> (error_kind rep = None \<longleftrightarrow> status rep = 200 \<or> rep = R500_server_error)"
proof (cases "status rep = 400")
  case True
  from invalid_no_calls [OF assms True] True show ?thesis
    by (cases rep) (auto simp: writes_def)
next
  case False
  from valid_request [OF assms False] obtain n where
    "ensure_exist L e s (fromUserId rq) (toUserId rq) n = (rep, s', cs)"
    by auto
  then show ?thesis
    by (cases rule: ensure_exist_cases) (auto simp: writes_def)
qed

theorem errors_classified_or_generic_witness:
  "transfer hex_layer (quiet(ExistsFrom := Event (\<lambda>s. s) Rejects)) seeded
       \<lparr>fromUserId = alice, toUserId = bob, amount = Number (Fin 200)\<rparr>
     = (R500_server_error, seeded, [(ExistsCall alice, Threw), (ExistsCall bob, Doc)])
   \<and> (ExistsCall alice, Threw) \<in> set [(ExistsCall alice, Threw), (ExistsCall bob, Doc)]
   \<and> writes [(ExistsCall alice, Threw), (ExistsCall bob, Doc)] = []
   \<and> error_kind R500_server_error = None"
proof -
  have run: "transfer hex_layer (quiet(ExistsFrom := Event (\<lambda>s. s) Rejects)) seeded
       \<lparr>fromUserId = alice, toUserId = bob, amount = Number (Fin 200)\<rparr>
     = (R500_server_error, seeded, [(ExistsCall alice, Threw), (ExistsCall bob, Doc)])"
    by (simp add: handler_defs example_simps)
  from errors_classified_or_generic [OF run] run show ?thesis
    by simp
qed


section \<open>The refund\<close>

text \<open>
  How many refund calls a run makes: none unless the credit failed, one when it did, and
  two exactly when the credit returned null and the refund of line 115 rejected.
\<close>

lemma refund_attempts_bounds:
  assumes "transfer L e s rq = (rep, s', cs)"
  shows "refund_attempts cs \<le> 2
       \<and> ((\<exists>i n r. (CreditCall i n, r) \<in> set cs \<and> r \<noteq> Doc) \<longleftrightarrow> 1 \<le> refund_attempts cs)
       \<and> (refund_attempts cs = 2 \<longleftrightarrow>
            (\<exists>i n. (CreditCall i n, Nothing) \<in> set cs)
            \<and> (\<exists>i n. (RefundCall i n, Threw) \<in> set (butlast cs)))"
proof (cases "status rep = 400")
  case True
  from invalid_no_calls [OF assms True] show ?thesis
    by (simp add: refund_attempts_def)
next
  case False
  from valid_request [OF assms False] obtain n where
    "ensure_exist L e s (fromUserId rq) (toUserId rq) n = (rep, s', cs)"
    by auto
  then show ?thesis
    by (cases rule: ensure_exist_cases) (auto simp: refund_attempts_def)
qed

text \<open>
  C4 fails on the code. The recipient's document is deleted after the existence check,
  so the credit returns null and the handler sends the refund of line 115; that call
  rejects. Line 115 is inside the \<^verbatim>\<open>try\<close> block, so the rejection enters
  \<^verbatim>\<open>catch (creditErr)\<close>, which sends the refund of line 129: one request, two refund calls.
\<close>

theorem refund_is_attempted_twice:
  "fst (transfer hex_layer
         (quiet(Credit := Event (\<lambda>s. s\<lparr>docs := (docs s)(bob_id := None)\<rparr>) Succeeds,
                RefundNotFound := Event (\<lambda>s. s) Rejects)) seeded
         \<lparr>fromUserId = alice, toUserId = bob, amount = Number (Fin 200)\<rparr>) = R500_refunded
   \<and> snd (snd (transfer hex_layer
         (quiet(Credit := Event (\<lambda>s. s\<lparr>docs := (docs s)(bob_id := None)\<rparr>) Succeeds,
                RefundNotFound := Event (\<lambda>s. s) Rejects)) seeded
         \<lparr>fromUserId = alice, toUserId = bob, amount = Number (Fin 200)\<rparr>))
       = [(ExistsCall alice, Doc), (ExistsCall bob, Doc), (DebitCall alice (Fin 200), Doc),
          (CreditCall bob (Fin 200), Nothing),
          (RefundCall alice (Fin 200), Threw), (RefundCall alice (Fin 200), Doc)]
   \<and> refund_attempts (snd (snd (transfer hex_layer
         (quiet(Credit := Event (\<lambda>s. s\<lparr>docs := (docs s)(bob_id := None)\<rparr>) Succeeds,
                RefundNotFound := Event (\<lambda>s. s) Rejects)) seeded
         \<lparr>fromUserId = alice, toUserId = bob, amount = Number (Fin 200)\<rparr>))) = 2"
  by (simp add: handler_defs example_simps refund_attempts_def)

theorem refund_is_attempted_twice_witness:
  "refund_attempts (snd (snd (transfer hex_layer
         (quiet(Credit := Event (\<lambda>s. s\<lparr>docs := (docs s)(bob_id := None)\<rparr>) Succeeds,
                RefundNotFound := Event (\<lambda>s. s) Rejects)) seeded
         \<lparr>fromUserId = alice, toUserId = bob, amount = Number (Fin 200)\<rparr>))) = 2"
  using refund_is_attempted_twice by blast

text \<open>
  C5 fails on the code. First run: the credit rejects and the sender's document is gone
  when the refund of line 129 runs; the refund returns null, and the reply is still
  \<^verbatim>\<open>Credit failed; sender refunded (best-effort)\<close>. Second run: every document is deleted
  before the credit (as \<^verbatim>\<open>seed.js\<close> does); the credit and the refund of line 115 both
  return null, and the reply is \<^verbatim>\<open>transfer rolled back\<close>. In both runs the only update
  that went through is the debit.
\<close>

theorem missing_sender_is_reported_refunded:
  "fst (transfer hex_layer
         (quiet(Credit := Event (\<lambda>s. s) Rejects,
                RefundInCatch := Event (\<lambda>s. s\<lparr>docs := (docs s)(alice_id := None)\<rparr>) Succeeds))
         seeded
         \<lparr>fromUserId = alice, toUserId = bob, amount = Number (Fin 200)\<rparr>) = R500_refunded
   \<and> writes (snd (snd (transfer hex_layer
         (quiet(Credit := Event (\<lambda>s. s) Rejects,
                RefundInCatch := Event (\<lambda>s. s\<lparr>docs := (docs s)(alice_id := None)\<rparr>) Succeeds))
         seeded
         \<lparr>fromUserId = alice, toUserId = bob, amount = Number (Fin 200)\<rparr>)))
       = [(DebitCall alice (Fin 200), Doc)]
   \<and> fst (transfer hex_layer
         (quiet(Credit := Event (\<lambda>s. \<lparr>docs = Map.empty, scan = []\<rparr>) Succeeds)) seeded
         \<lparr>fromUserId = alice, toUserId = bob, amount = Number (Fin 200)\<rparr>) = R500_rolled_back
   \<and> writes (snd (snd (transfer hex_layer
         (quiet(Credit := Event (\<lambda>s. \<lparr>docs = Map.empty, scan = []\<rparr>) Succeeds)) seeded
         \<lparr>fromUserId = alice, toUserId = bob, amount = Number (Fin 200)\<rparr>)))
       = [(DebitCall alice (Fin 200), Doc)]"
  by (simp add: handler_defs example_simps writes_def)

theorem missing_sender_is_reported_refunded_witness:
  "error_kind (fst (transfer hex_layer
         (quiet(Credit := Event (\<lambda>s. s) Rejects,
                RefundInCatch := Event (\<lambda>s. s\<lparr>docs := (docs s)(alice_id := None)\<rparr>) Succeeds))
         seeded
         \<lparr>fromUserId = alice, toUserId = bob, amount = Number (Fin 200)\<rparr>))
     = Some CreditFailure_Compensated"
proof -
  from missing_sender_is_reported_refunded
  have "fst (transfer hex_layer
         (quiet(Credit := Event (\<lambda>s. s) Rejects,
                RefundInCatch := Event (\<lambda>s. s\<lparr>docs := (docs s)(alice_id := None)\<rparr>) Succeeds))
         seeded
         \<lparr>fromUserId = alice, toUserId = bob, amount = Number (Fin 200)\<rparr>) = R500_refunded"
    by blast
  then show ?thesis
    by simp
qed


section \<open>An amount that is not a number\<close>

text \<open>
  C9, as the claim states it, fails: with the amount \<open>NaN\<close> and both accounts there, the
  reply is not 409. The conditional debit is not answered by the store at all: the
  schema layer refuses \<open>NaN\<close>, the call rejects, and the outer \<^verbatim>\<open>catch\<close> answers 500
  \<^verbatim>\<open>Server error\<close>.
\<close>

theorem nan_amount_not_409:
  "transfer hex_layer quiet seeded \<lparr>fromUserId = alice, toUserId = bob, amount = Number NaN\<rparr>
     = (R500_server_error, seeded,
        [(ExistsCall alice, Doc), (ExistsCall bob, Doc), (DebitCall alice NaN, Threw)])
   \<and> status R500_server_error \<noteq> 409"
  by (simp add: handler_defs example_simps)

text \<open>
  C9, amended. A request whose amount is \<open>NaN\<close>, with two identifiers that are given and
  not strictly equal, passes the validation: the store is called. When both existence
  queries return and find the accounts, the conditional debit rejects, the reply is the
  generic 500 \<^verbatim>\<open>Server error\<close>, and the request has changed no balance: the store is as
  the others left it.
\<close>

theorem nan_amount_is_refused_at_debit:
  assumes "amount rq = Number NaN"
    and "truthy (fromUserId rq)" and "truthy (toUserId rq)"
    and "\<not> strict_eq (fromUserId rq) (toUserId rq)"
    and "outcome (e ExistsFrom) = Succeeds" and "outcome (e ExistsTo) = Succeeds"
    and "User_exists L (fromUserId rq) (interferes (e ExistsFrom) s)
           = Some (True, interferes (e ExistsFrom) s)"
    and "User_exists L (toUserId rq) (interferes (e ExistsTo) (interferes (e ExistsFrom) s))
           = Some (True, interferes (e ExistsTo) (interferes (e ExistsFrom) s))"
  shows "transfer L e s rq =
     (R500_server_error,
      interferes (e Debit) (interferes (e ExistsTo) (interferes (e ExistsFrom) s)),
      [(ExistsCall (fromUserId rq), Doc), (ExistsCall (toUserId rq), Doc),
       (DebitCall (fromUserId rq) NaN, Threw)])"
  using assms
  by (auto simp: handler_defs debit_NaN Let_def split: fault.splits)

theorem nan_amount_is_refused_at_debit_witness:
  "truthy alice \<and> truthy bob \<and> \<not> strict_eq alice bob
   \<and> outcome (quiet ExistsFrom) = Succeeds \<and> outcome (quiet ExistsTo) = Succeeds
   \<and> User_exists hex_layer alice seeded = Some (True, seeded)
   \<and> User_exists hex_layer bob seeded = Some (True, seeded)
   \<and> transfer hex_layer quiet seeded \<lparr>fromUserId = alice, toUserId = bob, amount = Number NaN\<rparr>
       = (R500_server_error, seeded,
          [(ExistsCall alice, Doc), (ExistsCall bob, Doc), (DebitCall alice NaN, Threw)])"
proof -
  have there: "User_exists hex_layer alice seeded = Some (True, seeded)"
    "User_exists hex_layer bob seeded = Some (True, seeded)"
    by (simp_all add: example_simps)
  have calm: "outcome (quiet c) = Succeeds" "interferes (quiet c) s = s" for c s
    by (simp_all add: quiet_def)
  from nan_amount_is_refused_at_debit
         [of "\<lparr>fromUserId = alice, toUserId = bob, amount = Number NaN\<rparr>" quiet hex_layer seeded]
       ids_truthy ids_not_same there calm
  show ?thesis
    by simp
qed


section \<open>Creating an account\<close>

text \<open>
  C10, as the claim states it, fails for \<open>NaN\<close>: the handler lets the balance \<open>NaN\<close>
  pass, but \<^verbatim>\<open>save\<close> rejects, the reply is 500 and nothing is stored.
\<close>

theorem nan_balance_is_refused:
  "create_user hex_layer (Event (\<lambda>s. s) Succeeds) ''64b000000000000000000e5e'' seeded
        \<lparr>body_name = String ''Eve'', body_balance = Number NaN\<rparr> = (U500, seeded)"
  by (simp add: create_user_def await_def save_def hex_layer_def)

lemma debit_spares_negative:
  assumes "docs s i = Some u" and "\<not> gte_num (balance u) (Fin 0)" and "guarded (CondDebit j n)"
  shows "docs (apply_update L s (CondDebit j n)) i = Some u"
proof (cases "findOneAndUpdate_gte_inc L j n (neg_num n) s")
  case None
  with assms show ?thesis by simp
next
  case (Some rs)
  obtain r s' where rs: "rs = (r, s')" by (cases rs)
  have "\<not> gte_num (balance u) n"
    using assms(2,3) by (cases "balance u"; cases n) (auto simp: gte_num_def)
  with debit_result [OF Some [unfolded rs]] assms Some rs show ?thesis
    by (cases r) (auto simp: replace_def)
qed

text \<open>
  C10, amended. \<^verbatim>\<open>app.post('/users')\<close> accepts a balance that is any number other than
  \<open>NaN\<close>: with a name that is given and that the schema layer casts to a string that is
  not empty, and a \<^verbatim>\<open>save\<close> that the environment does not make reject, the reply is 201
  and the document is stored with that very balance, be it negative. When the balance
  is not at least 0, no conditional debit of a transfer changes the document: the
  balance stays as it was created.
\<close>

theorem numeric_balance_is_accepted:
  assumes "truthy nm" and "castString L nm = Some str" and "str \<noteq> []"
    and "outcome ev = Succeeds" and "b \<noteq> NaN"
  shows "create_user L ev i s \<lparr>body_name = nm, body_balance = Number b\<rparr>
           = (U201 i \<lparr>name = str, balance = b\<rparr>,
              (interferes ev s)\<lparr>docs := (docs (interferes ev s))(i \<mapsto> \<lparr>name = str, balance = b\<rparr>),
                               scan := scan (interferes ev s) @ [i]\<rparr>)
       \<and> (\<not> gte_num b (Fin 0) \<longrightarrow>
            (\<forall>j n. guarded (CondDebit j n) \<longrightarrow>
               docs (apply_update L
                      ((interferes ev s)\<lparr>docs := (docs (interferes ev s))(i \<mapsto> \<lparr>name = str, balance = b\<rparr>),
                                       scan := scan (interferes ev s) @ [i]\<rparr>)
                      (CondDebit j n)) i
                 = Some \<lparr>name = str, balance = b\<rparr>))"
proof -
  have "create_user L ev i s \<lparr>body_name = nm, body_balance = Number b\<rparr>
           = (U201 i \<lparr>name = str, balance = b\<rparr>,
              (interferes ev s)\<lparr>docs := (docs (interferes ev s))(i \<mapsto> \<lparr>name = str, balance = b\<rparr>),
                               scan := scan (interferes ev s) @ [i]\<rparr>)"
    using assms by (cases b) (auto simp: create_user_def await_def save_def Let_def)
  moreover have "docs (apply_update L
                      ((interferes ev s)\<lparr>docs := (docs (interferes ev s))(i \<mapsto> \<lparr>name = str, balance = b\<rparr>),
                                       scan := scan (interferes ev s) @ [i]\<rparr>)
                      (CondDebit j n)) i
                 = Some \<lparr>name = str, balance = b\<rparr>"
    if "\<not> gte_num b (Fin 0)" "guarded (CondDebit j n)" for j n
    using that by (intro debit_spares_negative) auto
  ultimately show ?thesis
    by blast
qed

theorem numeric_balance_is_accepted_witness:
  "truthy (String ''Eve'') \<and> castString hex_layer (String ''Eve'') = Some ''Eve''
   \<and> ''Eve'' \<noteq> []
   \<and> outcome (Event (\<lambda>s. s) Succeeds) = Succeeds \<and> Fin (- 5) \<noteq> NaN
   \<and> create_user hex_layer (Event (\<lambda>s. s) Succeeds) ''64b000000000000000000e5e'' seeded
        \<lparr>body_name = String ''Eve'', body_balance = Number (Fin (- 5))\<rparr>
      = (U201 ''64b000000000000000000e5e'' \<lparr>name = ''Eve'', balance = Fin (- 5)\<rparr>,
         seeded\<lparr>docs := (docs seeded)(''64b000000000000000000e5e''
                                        \<mapsto> \<lparr>name = ''Eve'', balance = Fin (- 5)\<rparr>),
                scan := scan seeded @ [''64b000000000000000000e5e'']\<rparr>)
   \<and> \<not> gte_num (Fin (- 5)) (Fin 0)
   \<and> guarded (CondDebit (String ''64b000000000000000000e5e'') (Fin 1))
   \<and> docs (apply_update hex_layer
        (seeded\<lparr>docs := (docs seeded)(''64b000000000000000000e5e''
                                        \<mapsto> \<lparr>name = ''Eve'', balance = Fin (- 5)\<rparr>),
                scan := scan seeded @ [''64b000000000000000000e5e'']\<rparr>)
        (CondDebit (String ''64b000000000000000000e5e'') (Fin 1))) ''64b000000000000000000e5e''
      = Some \<lparr>name = ''Eve'', balance = Fin (- 5)\<rparr>"
proof -
  have t: "truthy (String ''Eve'')" and c: "castString hex_layer (String ''Eve'') = Some ''Eve''"
    and ne: "''Eve'' \<noteq> []"
    and o: "outcome (Event (\<lambda>s. s) Succeeds) = Succeeds" and n: "Fin (- 5) \<noteq> NaN"
    and neg: "\<not> gte_num (Fin (- 5)) (Fin 0)"
    and g: "guarded (CondDebit (String ''64b000000000000000000e5e'') (Fin 1))"
    by (simp_all add: hex_layer_def gte_num_def)
  note th = numeric_balance_is_accepted
      [OF t c ne o n, of "''64b000000000000000000e5e''" seeded, unfolded event.sel]
  from th [THEN conjunct1] th [THEN conjunct2, rule_format, OF neg g] t c ne o n neg g
  show ?thesis
    by blast
qed

end
